theory Spec2Isabelle
  imports Main
begin

section \<open>Signatures (signatures.py)\<close>

text \<open>
  Each \<^verbatim>\<open>dspy.Signature\<close> class declares input fields and output fields. The
  output fields of a signature are a record; the strings are Python \<^verbatim>\<open>str\<close> values.
  A prediction that a predictor returns has every output field of its signature; a
  predictor that cannot give one raises instead.
  The field \<^verbatim>\<open>question\<close> of \<^verbatim>\<open>GenerateMLQuestion\<close> is written \<open>ml_question\<close>,
  since \<^verbatim>\<open>GenerateQuestion\<close> has an output of the same name.
\<close>

record GenerateQuestion_out =
  question :: string
  explanation :: string

record GenerateFollowUp_out =
  followup_questions :: string

record AssessDifficulty_out =
  assessed_difficulty :: string
  reasoning :: string

record GenerateCodingQuestion_out =
  question_title :: string
  question_description :: string
  input_format :: string
  output_format :: string
  constraints :: string
  example :: string

record GenerateMLQuestion_out =
  ml_question :: string
  key_concepts :: string
  expected_depth :: string

text \<open>
  One request to the completion service: the signature it is made for, with the values
  of that signature's input fields in the order of their declaration.
\<close>

datatype call =
    GenerateQuestion string string string
  | GenerateFollowUp string string int
  | AssessDifficulty string string
  | GenerateCodingQuestion string string
  | GenerateMLQuestion string string string

section \<open>Exceptions and the completion service\<close>

text \<open>
  \<open>ValueError\<close> is the exception \<^verbatim>\<open>CompleteInterviewGenerator.forward\<close> raises
  itself, with its message. \<open>ExternalError\<close> stands for an exception that comes out of
  a \<^verbatim>\<open>dspy.ChainOfThought\<close> call, identified by its text. The modules catch
  nothing, so a raised exception is the outcome \<open>Inl\<close> of the whole call.
\<close>

datatype error = ValueError string | ExternalError string

text \<open>
  The five \<^verbatim>\<open>dspy.ChainOfThought(Signature)\<close> predictors are outside the repository.
  They are a parameter of the model: for each signature a function from the input
  fields and the state of the service to a prediction or an exception, and the next
  state of the service. Nothing is assumed of them: they may fail, and they may answer
  the same request differently at different times.
\<close>

record 's completion_service =
  cot_GenerateQuestion ::
    "string \<Rightarrow> string \<Rightarrow> string \<Rightarrow> 's \<Rightarrow> (error + GenerateQuestion_out) \<times> 's"
  cot_GenerateFollowUp ::
    "string \<Rightarrow> string \<Rightarrow> int \<Rightarrow> 's \<Rightarrow> (error + GenerateFollowUp_out) \<times> 's"
  cot_AssessDifficulty ::
    "string \<Rightarrow> string \<Rightarrow> 's \<Rightarrow> (error + AssessDifficulty_out) \<times> 's"
  cot_GenerateCodingQuestion ::
    "string \<Rightarrow> string \<Rightarrow> 's \<Rightarrow> (error + GenerateCodingQuestion_out) \<times> 's"
  cot_GenerateMLQuestion ::
    "string \<Rightarrow> string \<Rightarrow> string \<Rightarrow> 's \<Rightarrow> (error + GenerateMLQuestion_out) \<times> 's"

text \<open>
  The world a module runs in: the state of the service, and the requests made to it so
  far, oldest first.
\<close>

record 's world =
  lm_state :: 's
  calls :: "call list"

definition request ::
  "call \<Rightarrow> ('s \<Rightarrow> (error + 'a) \<times> 's) \<Rightarrow> 's world \<Rightarrow> (error + 'a) \<times> 's world" where
  "request c f w =
     (case f (lm_state w) of
        (r, s') \<Rightarrow> (r, \<lparr>lm_state = s', calls = calls w @ [c]\<rparr>))"

section \<open>Single-stage generators (modules.py)\<close>

definition QuestionGenerator_forward ::
  "'s completion_service \<Rightarrow> string \<Rightarrow> string \<Rightarrow> string \<Rightarrow> 's world
     \<Rightarrow> (error + GenerateQuestion_out) \<times> 's world" where
  "QuestionGenerator_forward svc topic question_type difficulty w =
     request (GenerateQuestion topic question_type difficulty)
       (cot_GenerateQuestion svc topic question_type difficulty) w"

definition CodingQuestionGenerator_forward ::
  "'s completion_service \<Rightarrow> string \<Rightarrow> string \<Rightarrow> 's world
     \<Rightarrow> (error + GenerateCodingQuestion_out) \<times> 's world" where
  "CodingQuestionGenerator_forward svc topic difficulty w =
     request (GenerateCodingQuestion topic difficulty)
       (cot_GenerateCodingQuestion svc topic difficulty) w"

text \<open>
  A parameter with a default value is an \<open>option\<close>: \<open>None\<close> when the caller leaves the
  argument out.
\<close>

definition MLQuestionGenerator_forward ::
  "'s completion_service \<Rightarrow> string \<Rightarrow> string \<Rightarrow> string option \<Rightarrow> 's world
     \<Rightarrow> (error + GenerateMLQuestion_out) \<times> 's world" where
  "MLQuestionGenerator_forward svc topic difficulty question_style w =
     (let style = (case question_style of None \<Rightarrow> ''mixed'' | Some s \<Rightarrow> s)
      in request (GenerateMLQuestion topic difficulty style)
           (cot_GenerateMLQuestion svc topic difficulty style) w)"

definition FollowUpGenerator_forward ::
  "'s completion_service \<Rightarrow> string \<Rightarrow> string \<Rightarrow> int option \<Rightarrow> 's world
     \<Rightarrow> (error + GenerateFollowUp_out) \<times> 's world" where
  "FollowUpGenerator_forward svc original_question topic num_followups w =
     (let n = (case num_followups of None \<Rightarrow> 3 | Some k \<Rightarrow> k)
      in request (GenerateFollowUp original_question topic n)
           (cot_GenerateFollowUp svc original_question topic n) w)"

text \<open>
  \<^verbatim>\<open>InterviewPipeline\<close> holds the difficulty assessor as a bare
  \<^verbatim>\<open>dspy.ChainOfThought(AssessDifficulty)\<close>, with no module around it.
\<close>

definition difficulty_assessor ::
  "'s completion_service \<Rightarrow> string \<Rightarrow> string \<Rightarrow> 's world
     \<Rightarrow> (error + AssessDifficulty_out) \<times> 's world" where
  "difficulty_assessor svc question_text topic w =
     request (AssessDifficulty question_text topic)
       (cot_AssessDifficulty svc question_text topic) w"

section \<open>InterviewPipeline\<close>

text \<open>The returned \<^verbatim>\<open>dict\<close>, from its string keys to its string values.\<close>

type_synonym pipeline_result = "string \<rightharpoonup> string"

definition InterviewPipeline_forward ::
  "'s completion_service \<Rightarrow> string \<Rightarrow> string \<Rightarrow> string \<Rightarrow> int option \<Rightarrow> 's world
     \<Rightarrow> (error + pipeline_result) \<times> 's world" where
  "InterviewPipeline_forward svc topic question_type difficulty num_followups w =
     (let n = (case num_followups of None \<Rightarrow> 3 | Some k \<Rightarrow> k)
      in case QuestionGenerator_forward svc topic question_type difficulty w of
           (Inl e, w1) \<Rightarrow> (Inl e, w1)
         | (Inr question_result, w1) \<Rightarrow>
             (case FollowUpGenerator_forward svc (question question_result) topic (Some n) w1 of
                (Inl e, w2) \<Rightarrow> (Inl e, w2)
              | (Inr followup_result, w2) \<Rightarrow>
                  (case difficulty_assessor svc (question question_result) topic w2 of
                     (Inl e, w3) \<Rightarrow> (Inl e, w3)
                   | (Inr difficulty_result, w3) \<Rightarrow>
                       (Inr [''question'' \<mapsto> question question_result,
                             ''explanation'' \<mapsto> explanation question_result,
                             ''requested_difficulty'' \<mapsto> difficulty,
                             ''assessed_difficulty'' \<mapsto> assessed_difficulty difficulty_result,
                             ''difficulty_reasoning'' \<mapsto> reasoning difficulty_result,
                             ''followup_questions'' \<mapsto> followup_questions followup_result],
                        w3))))"

section \<open>CompleteInterviewGenerator\<close>

text \<open>
  The values of the returned \<^verbatim>\<open>dict\<close>: a string, or the prediction of the
  specialised generator under the key \<^verbatim>\<open>details\<close>.
\<close>

datatype py_value =
    Str string
  | CodingPrediction GenerateCodingQuestion_out
  | MLPrediction GenerateMLQuestion_out

text \<open>The f-string of the coding branch.\<close>

definition coding_main_question :: "GenerateCodingQuestion_out \<Rightarrow> string" where
  "coding_main_question result =
     question_title result @ ''\<newline>\<newline>'' @ question_description result
       @ ''\<newline>\<newline>Input: '' @ input_format result
       @ ''\<newline>Output: '' @ output_format result
       @ ''\<newline>\<newline>Constraints: '' @ constraints result
       @ ''\<newline>\<newline>Example:\<newline>'' @ example result"

text \<open>The code after the branches: the follow-up call and the returned \<^verbatim>\<open>dict\<close>.\<close>

definition generate_followups ::
  "'s completion_service \<Rightarrow> string \<Rightarrow> py_value \<Rightarrow> string \<Rightarrow> string \<Rightarrow> int \<Rightarrow> 's world
     \<Rightarrow> (error + (string \<rightharpoonup> py_value)) \<times> 's world" where
  "generate_followups svc main_question result topic difficulty n w =
     (case FollowUpGenerator_forward svc main_question topic (Some n) w of
        (Inl e, w2) \<Rightarrow> (Inl e, w2)
      | (Inr followup_result, w2) \<Rightarrow>
          (Inr [''question'' \<mapsto> Str main_question,
                ''details'' \<mapsto> result,
                ''difficulty'' \<mapsto> Str difficulty,
                ''followup_questions'' \<mapsto> Str (followup_questions followup_result)],
           w2))"

definition CompleteInterviewGenerator_forward ::
  "'s completion_service \<Rightarrow> string \<Rightarrow> string \<Rightarrow> string \<Rightarrow> int option \<Rightarrow> 's world
     \<Rightarrow> (error + (string \<rightharpoonup> py_value)) \<times> 's world" where
  "CompleteInterviewGenerator_forward svc topic question_type difficulty num_followups w =
     (let n = (case num_followups of None \<Rightarrow> 3 | Some k \<Rightarrow> k)
      in if question_type = ''coding'' then
           (case CodingQuestionGenerator_forward svc topic difficulty w of
              (Inl e, w1) \<Rightarrow> (Inl e, w1)
            | (Inr result, w1) \<Rightarrow>
                generate_followups svc (coding_main_question result) (CodingPrediction result)
                  topic difficulty n w1)
         else if question_type = ''ml_theory'' then
           (case MLQuestionGenerator_forward svc topic difficulty (Some ''theoretical'') w of
              (Inl e, w1) \<Rightarrow> (Inl e, w1)
            | (Inr ml_result, w1) \<Rightarrow>
                generate_followups svc (ml_question ml_result) (MLPrediction ml_result)
                  topic difficulty n w1)
         else if question_type = ''ml_practical'' then
           (case MLQuestionGenerator_forward svc topic difficulty (Some ''practical'') w of
              (Inl e, w1) \<Rightarrow> (Inl e, w1)
            | (Inr ml_result, w1) \<Rightarrow>
                generate_followups svc (ml_question ml_result) (MLPrediction ml_result)
                  topic difficulty n w1)
         else (Inl (ValueError (''Unknown question type: '' @ question_type)), w))"

section \<open>The reordered pipeline\<close>

text \<open>
  The variant of \<^verbatim>\<open>InterviewPipeline.forward\<close> that the specification speaks of:
  the difficulty assessment (stage 3) runs before the follow-up generation (stage 2).
  Everything else is as in \<open>InterviewPipeline_forward\<close>.
\<close>

definition InterviewPipeline_forward_swapped ::
  "'s completion_service \<Rightarrow> string \<Rightarrow> string \<Rightarrow> string \<Rightarrow> int option \<Rightarrow> 's world
     \<Rightarrow> (error + pipeline_result) \<times> 's world" where
  "InterviewPipeline_forward_swapped svc topic question_type difficulty num_followups w =
     (let n = (case num_followups of None \<Rightarrow> 3 | Some k \<Rightarrow> k)
      in case QuestionGenerator_forward svc topic question_type difficulty w of
           (Inl e, w1) \<Rightarrow> (Inl e, w1)
         | (Inr question_result, w1) \<Rightarrow>
             (case difficulty_assessor svc (question question_result) topic w1 of
                (Inl e, w2) \<Rightarrow> (Inl e, w2)
              | (Inr difficulty_result, w2) \<Rightarrow>
                  (case FollowUpGenerator_forward svc (question question_result) topic (Some n) w2 of
                     (Inl e, w3) \<Rightarrow> (Inl e, w3)
                   | (Inr followup_result, w3) \<Rightarrow>
                       (Inr [''question'' \<mapsto> question question_result,
                             ''explanation'' \<mapsto> explanation question_result,
                             ''requested_difficulty'' \<mapsto> difficulty,
                             ''assessed_difficulty'' \<mapsto> assessed_difficulty difficulty_result,
                             ''difficulty_reasoning'' \<mapsto> reasoning difficulty_result,
                             ''followup_questions'' \<mapsto> followup_questions followup_result],
                        w3))))"

text \<open>
  A completion service that is a fixed pure function: the answer to a request depends on
  the request alone, and the state of the service never changes.
\<close>

record pure_service =
  ans_GenerateQuestion :: "string \<Rightarrow> string \<Rightarrow> string \<Rightarrow> error + GenerateQuestion_out"
  ans_GenerateFollowUp :: "string \<Rightarrow> string \<Rightarrow> int \<Rightarrow> error + GenerateFollowUp_out"
  ans_AssessDifficulty :: "string \<Rightarrow> string \<Rightarrow> error + AssessDifficulty_out"
  ans_GenerateCodingQuestion :: "string \<Rightarrow> string \<Rightarrow> error + GenerateCodingQuestion_out"
  ans_GenerateMLQuestion :: "string \<Rightarrow> string \<Rightarrow> string \<Rightarrow> error + GenerateMLQuestion_out"

definition stateless :: "pure_service \<Rightarrow> 's completion_service" where
  "stateless p =
     \<lparr>cot_GenerateQuestion = (\<lambda>topic question_type difficulty s.
        (ans_GenerateQuestion p topic question_type difficulty, s)),
      cot_GenerateFollowUp = (\<lambda>original_question topic n s.
        (ans_GenerateFollowUp p original_question topic n, s)),
      cot_AssessDifficulty = (\<lambda>question_text topic s.
        (ans_AssessDifficulty p question_text topic, s)),
      cot_GenerateCodingQuestion = (\<lambda>topic difficulty s.
        (ans_GenerateCodingQuestion p topic difficulty, s)),
      cot_GenerateMLQuestion = (\<lambda>topic difficulty style s.
        (ans_GenerateMLQuestion p topic difficulty style, s))\<rparr>"

section \<open>Services for concrete runs\<close>

text \<open>
  A service that answers every request, builds its answers from the inputs, and counts
  the requests it has served in its state.
\<close>

definition echo_service :: "nat completion_service" where
  "echo_service =
     \<lparr>cot_GenerateQuestion = (\<lambda>topic question_type difficulty s.
        (Inr \<lparr>question = ''Explain '' @ topic, explanation = ''Tests '' @ question_type\<rparr>,
         Suc s)),
      cot_GenerateFollowUp = (\<lambda>original_question topic n s.
        (Inr \<lparr>followup_questions = ''1. Why? ('' @ topic @ '')''\<rparr>, Suc s)),
      cot_AssessDifficulty = (\<lambda>question_text topic s.
        (Inr \<lparr>assessed_difficulty = ''hard'', reasoning = ''Needs '' @ topic\<rparr>, Suc s)),
      cot_GenerateCodingQuestion = (\<lambda>topic difficulty s.
        (Inr \<lparr>question_title = ''Shortest Path'', question_description = ''Find it.'',
              input_format = ''a graph'', output_format = ''a path'',
              constraints = ''O(E log V)'', example = ''1 2''\<rparr>, Suc s)),
      cot_GenerateMLQuestion = (\<lambda>topic difficulty style s.
        (Inr \<lparr>ml_question = ''A '' @ style @ '' question on '' @ topic,
              key_concepts = ''bias'', expected_depth = difficulty\<rparr>, Suc s))\<rparr>"

text \<open>The same service, with a question predictor that raises.\<close>

definition failing_service :: "nat completion_service" where
  "failing_service =
     echo_service\<lparr>cot_GenerateQuestion :=
       (\<lambda>topic question_type difficulty s. (Inl (ExternalError ''no question''), Suc s))\<rparr>"

definition fresh :: "nat world" where
  "fresh = \<lparr>lm_state = 0, calls = []\<rparr>"

text \<open>A pure service that answers every request.\<close>

definition pure_answers :: pure_service where
  "pure_answers =
     \<lparr>ans_GenerateQuestion = (\<lambda>topic question_type difficulty.
        Inr \<lparr>question = ''Explain '' @ topic, explanation = ''Tests '' @ question_type\<rparr>),
      ans_GenerateFollowUp = (\<lambda>original_question topic n.
        Inr \<lparr>followup_questions = ''1. Why? ('' @ topic @ '')''\<rparr>),
      ans_AssessDifficulty = (\<lambda>question_text topic.
        Inr \<lparr>assessed_difficulty = ''hard'', reasoning = ''Needs '' @ topic\<rparr>),
      ans_GenerateCodingQuestion = (\<lambda>topic difficulty.
        Inr \<lparr>question_title = ''Shortest Path'', question_description = ''Find it.'',
             input_format = ''a graph'', output_format = ''a path'',
             constraints = ''O(E log V)'', example = ''1 2''\<rparr>),
      ans_GenerateMLQuestion = (\<lambda>topic difficulty style.
        Inr \<lparr>ml_question = ''A '' @ style @ '' question on '' @ topic,
             key_concepts = ''bias'', expected_depth = difficulty\<rparr>)\<rparr>"

text \<open>
  The same pure service, with a follow-up predictor and a difficulty assessor that raise
  different errors, and with an assessor alone that raises.
\<close>

definition pure_failing :: pure_service where
  "pure_failing =
     pure_answers
       \<lparr>ans_GenerateFollowUp :=
          (\<lambda>original_question topic n. Inl (ExternalError ''no followups'')),
        ans_AssessDifficulty :=
          (\<lambda>question_text topic. Inl (ExternalError ''no assessment''))\<rparr>"

definition pure_unassessed :: pure_service where
  "pure_unassessed =
     pure_answers
       \<lparr>ans_AssessDifficulty :=
          (\<lambda>question_text topic. Inl (ExternalError ''no assessment''))\<rparr>"

section \<open>Requests\<close>

lemmas generator_defs =
  QuestionGenerator_forward_def CodingQuestionGenerator_forward_def
  MLQuestionGenerator_forward_def FollowUpGenerator_forward_def difficulty_assessor_def



lemma request_run:
  "f (lm_state w) = (r, s) \<Longrightarrow> request c f w = (r, \<lparr>lm_state = s, calls = calls w @ [c]\<rparr>)"
  by (simp add: request_def)

lemma request_inv:
  "request c f w = (r, w') \<Longrightarrow> f (lm_state w) = (r, lm_state w') \<and> calls w' = calls w @ [c]"
  by (auto simp: request_def split: prod.splits)

section \<open>Runs of the pipelines that return\<close>

text \<open>
  A run of \<open>InterviewPipeline_forward\<close> that returns a \<^verbatim>\<open>dict\<close> has made its
  three requests, each answered with a prediction, the service going from one state to
  the next in that order.
\<close>

lemma InterviewPipeline_success:
  assumes "InterviewPipeline_forward svc topic question_type difficulty num_followups w = (Inr r, w')"
  obtains qr fr dr s1 s2 where
    "cot_GenerateQuestion svc topic question_type difficulty (lm_state w) = (Inr qr, s1)"
    "cot_GenerateFollowUp svc (question qr) topic (case num_followups of None \<Rightarrow> 3 | Some k \<Rightarrow> k) s1
       = (Inr fr, s2)"
    "cot_AssessDifficulty svc (question qr) topic s2 = (Inr dr, lm_state w')"
    "calls w' = calls w @ [GenerateQuestion topic question_type difficulty,
        GenerateFollowUp (question qr) topic (case num_followups of None \<Rightarrow> 3 | Some k \<Rightarrow> k),
        AssessDifficulty (question qr) topic]"
    "r = [''question'' \<mapsto> question qr,
          ''explanation'' \<mapsto> explanation qr,
          ''requested_difficulty'' \<mapsto> difficulty,
          ''assessed_difficulty'' \<mapsto> assessed_difficulty dr,
          ''difficulty_reasoning'' \<mapsto> reasoning dr,
          ''followup_questions'' \<mapsto> followup_questions fr]"
  using assms
  unfolding InterviewPipeline_forward_def generator_defs Let_def
  by (auto split: prod.splits sum.splits dest!: request_inv)

lemma generate_followups_success:
  assumes "generate_followups svc main_question result topic difficulty n w = (Inr r, w')"
  obtains fr where
    "cot_GenerateFollowUp svc main_question topic n (lm_state w) = (Inr fr, lm_state w')"
    "calls w' = calls w @ [GenerateFollowUp main_question topic n]"
    "r = [''question'' \<mapsto> Str main_question,
          ''details'' \<mapsto> result,
          ''difficulty'' \<mapsto> Str difficulty,
          ''followup_questions'' \<mapsto> Str (followup_questions fr)]"
  using assms
  unfolding generate_followups_def FollowUpGenerator_forward_def Let_def
  by (auto split: prod.splits sum.splits dest!: request_inv)

lemma Complete_coding_success:
  assumes "CompleteInterviewGenerator_forward svc topic ''coding'' difficulty num_followups w = (Inr r, w')"
  obtains cr fr s1 where
    "cot_GenerateCodingQuestion svc topic difficulty (lm_state w) = (Inr cr, s1)"
    "cot_GenerateFollowUp svc (coding_main_question cr) topic
       (case num_followups of None \<Rightarrow> 3 | Some k \<Rightarrow> k) s1 = (Inr fr, lm_state w')"
    "calls w' = calls w @ [GenerateCodingQuestion topic difficulty,
       GenerateFollowUp (coding_main_question cr) topic (case num_followups of None \<Rightarrow> 3 | Some k \<Rightarrow> k)]"
    "r = [''question'' \<mapsto> Str (coding_main_question cr),
          ''details'' \<mapsto> CodingPrediction cr,
          ''difficulty'' \<mapsto> Str difficulty,
          ''followup_questions'' \<mapsto> Str (followup_questions fr)]"
proof -
  from assms obtain cr w1 where
    c: "CodingQuestionGenerator_forward svc topic difficulty w = (Inr cr, w1)" and
    f: "generate_followups svc (coding_main_question cr) (CodingPrediction cr) topic difficulty
          (case num_followups of None \<Rightarrow> 3 | Some k \<Rightarrow> k) w1 = (Inr r, w')"
    by (auto simp: CompleteInterviewGenerator_forward_def Let_def split: prod.splits sum.splits)
  from c have c': "cot_GenerateCodingQuestion svc topic difficulty (lm_state w) = (Inr cr, lm_state w1)"
    "calls w1 = calls w @ [GenerateCodingQuestion topic difficulty]"
    by (auto simp: CodingQuestionGenerator_forward_def dest!: request_inv)
  from f obtain fr where
    "cot_GenerateFollowUp svc (coding_main_question cr) topic
       (case num_followups of None \<Rightarrow> 3 | Some k \<Rightarrow> k) (lm_state w1) = (Inr fr, lm_state w')"
    "calls w' = calls w1 @ [GenerateFollowUp (coding_main_question cr) topic
       (case num_followups of None \<Rightarrow> 3 | Some k \<Rightarrow> k)]"
    "r = [''question'' \<mapsto> Str (coding_main_question cr),
          ''details'' \<mapsto> CodingPrediction cr,
          ''difficulty'' \<mapsto> Str difficulty,
          ''followup_questions'' \<mapsto> Str (followup_questions fr)]"
    by (rule generate_followups_success)
  with c' show thesis by (intro that) auto
qed

lemma Complete_ml_success:
  assumes "CompleteInterviewGenerator_forward svc topic question_type difficulty num_followups w = (Inr r, w')"
    and "question_type = ''ml_theory'' \<and> style = ''theoretical'' \<or>
           question_type = ''ml_practical'' \<and> style = ''practical''"
  obtains mr fr s1 where
    "cot_GenerateMLQuestion svc topic difficulty style (lm_state w) = (Inr mr, s1)"
    "cot_GenerateFollowUp svc (ml_question mr) topic
       (case num_followups of None \<Rightarrow> 3 | Some k \<Rightarrow> k) s1 = (Inr fr, lm_state w')"
    "calls w' = calls w @ [GenerateMLQuestion topic difficulty style,
       GenerateFollowUp (ml_question mr) topic (case num_followups of None \<Rightarrow> 3 | Some k \<Rightarrow> k)]"
    "r = [''question'' \<mapsto> Str (ml_question mr),
          ''details'' \<mapsto> MLPrediction mr,
          ''difficulty'' \<mapsto> Str difficulty,
          ''followup_questions'' \<mapsto> Str (followup_questions fr)]"
proof -
  from assms obtain mr w1 where
    c: "MLQuestionGenerator_forward svc topic difficulty (Some style) w = (Inr mr, w1)" and
    f: "generate_followups svc (ml_question mr) (MLPrediction mr) topic difficulty
          (case num_followups of None \<Rightarrow> 3 | Some k \<Rightarrow> k) w1 = (Inr r, w')"
    by (auto simp: CompleteInterviewGenerator_forward_def Let_def split: prod.splits sum.splits)
  from c have c': "cot_GenerateMLQuestion svc topic difficulty style (lm_state w) = (Inr mr, lm_state w1)"
    "calls w1 = calls w @ [GenerateMLQuestion topic difficulty style]"
    by (auto simp: MLQuestionGenerator_forward_def dest!: request_inv)
  from f obtain fr where
    "cot_GenerateFollowUp svc (ml_question mr) topic
       (case num_followups of None \<Rightarrow> 3 | Some k \<Rightarrow> k) (lm_state w1) = (Inr fr, lm_state w')"
    "calls w' = calls w1 @ [GenerateFollowUp (ml_question mr) topic
       (case num_followups of None \<Rightarrow> 3 | Some k \<Rightarrow> k)]"
    "r = [''question'' \<mapsto> Str (ml_question mr),
          ''details'' \<mapsto> MLPrediction mr,
          ''difficulty'' \<mapsto> Str difficulty,
          ''followup_questions'' \<mapsto> Str (followup_questions fr)]"
    by (rule generate_followups_success)
  with c' show thesis by (intro that) auto
qed

lemma Complete_success_branch:
  assumes "CompleteInterviewGenerator_forward svc topic question_type difficulty num_followups w = (Inr r, w')"
  shows "question_type \<in> {''coding'', ''ml_theory'', ''ml_practical''}"
  using assms by (auto simp: CompleteInterviewGenerator_forward_def Let_def split: if_splits)

lemma Complete_ml_first_call:
  assumes "question_type = ''ml_theory'' \<and> style = ''theoretical'' \<or>
           question_type = ''ml_practical'' \<and> style = ''practical''"
  shows "\<exists>rest. calls (snd (CompleteInterviewGenerator_forward svc topic question_type difficulty
            num_followups w)) = calls w @ GenerateMLQuestion topic difficulty style # rest"
  using assms
  by (auto simp: CompleteInterviewGenerator_forward_def generate_followups_def generator_defs
      request_def Let_def split: prod.splits sum.splits)

section \<open>Concrete runs\<close>

lemma echo_pipeline_run:
  "InterviewPipeline_forward echo_service ''heaps'' ''coding'' ''easy'' (Some 2) fresh
     = (Inr [''question'' \<mapsto> ''Explain heaps'',
             ''explanation'' \<mapsto> ''Tests coding'',
             ''requested_difficulty'' \<mapsto> ''easy'',
             ''assessed_difficulty'' \<mapsto> ''hard'',
             ''difficulty_reasoning'' \<mapsto> ''Needs heaps'',
             ''followup_questions'' \<mapsto> ''1. Why? (heaps)''],
        \<lparr>lm_state = 3, calls = [GenerateQuestion ''heaps'' ''coding'' ''easy'',
            GenerateFollowUp ''Explain heaps'' ''heaps'' 2,
            AssessDifficulty ''Explain heaps'' ''heaps'']\<rparr>)"
  by (simp add: InterviewPipeline_forward_def generator_defs request_def echo_service_def fresh_def)

lemma echo_coding_run:
  "CompleteInterviewGenerator_forward echo_service ''graph algorithms'' ''coding'' ''hard'' (Some 3) fresh
     = (Inr [''question'' \<mapsto> Str ''Shortest Path\<newline>\<newline>Find it.\<newline>\<newline>Input: a graph\<newline>Output: a path\<newline>\<newline>Constraints: O(E log V)\<newline>\<newline>Example:\<newline>1 2'',
             ''details'' \<mapsto> CodingPrediction
                \<lparr>question_title = ''Shortest Path'', question_description = ''Find it.'',
                 input_format = ''a graph'', output_format = ''a path'',
                 constraints = ''O(E log V)'', example = ''1 2''\<rparr>,
             ''difficulty'' \<mapsto> Str ''hard'',
             ''followup_questions'' \<mapsto> Str ''1. Why? (graph algorithms)''],
        \<lparr>lm_state = 2, calls = [GenerateCodingQuestion ''graph algorithms'' ''hard'',
            GenerateFollowUp ''Shortest Path\<newline>\<newline>Find it.\<newline>\<newline>Input: a graph\<newline>Output: a path\<newline>\<newline>Constraints: O(E log V)\<newline>\<newline>Example:\<newline>1 2'' ''graph algorithms'' 3]\<rparr>)"
  by (simp add: CompleteInterviewGenerator_forward_def generate_followups_def generator_defs
      request_def echo_service_def fresh_def coding_main_question_def)

lemma echo_ml_theory_run:
  "CompleteInterviewGenerator_forward echo_service ''overfitting'' ''ml_theory'' ''medium'' None fresh
     = (Inr [''question'' \<mapsto> Str ''A theoretical question on overfitting'',
             ''details'' \<mapsto> MLPrediction
                \<lparr>ml_question = ''A theoretical question on overfitting'',
                 key_concepts = ''bias'', expected_depth = ''medium''\<rparr>,
             ''difficulty'' \<mapsto> Str ''medium'',
             ''followup_questions'' \<mapsto> Str ''1. Why? (overfitting)''],
        \<lparr>lm_state = 2, calls = [GenerateMLQuestion ''overfitting'' ''medium'' ''theoretical'',
            GenerateFollowUp ''A theoretical question on overfitting'' ''overfitting'' 3]\<rparr>)"
  by (simp add: CompleteInterviewGenerator_forward_def generate_followups_def generator_defs
      request_def echo_service_def fresh_def)

lemma echo_ml_practical_run:
  "CompleteInterviewGenerator_forward echo_service ''CNN'' ''ml_practical'' ''hard'' (Some (- 1)) fresh
     = (Inr [''question'' \<mapsto> Str ''A practical question on CNN'',
             ''details'' \<mapsto> MLPrediction
                \<lparr>ml_question = ''A practical question on CNN'',
                 key_concepts = ''bias'', expected_depth = ''hard''\<rparr>,
             ''difficulty'' \<mapsto> Str ''hard'',
             ''followup_questions'' \<mapsto> Str ''1. Why? (CNN)''],
        \<lparr>lm_state = 2, calls = [GenerateMLQuestion ''CNN'' ''hard'' ''practical'',
            GenerateFollowUp ''A practical question on CNN'' ''CNN'' (- 1)]\<rparr>)"
  by (simp add: CompleteInterviewGenerator_forward_def generate_followups_def generator_defs
      request_def echo_service_def fresh_def)

section \<open>CompleteInterviewGenerator: the dispatch on the question type\<close>

text \<open>
  C1. For every \<open>question_type\<close> other than \<^verbatim>\<open>"coding"\<close>, \<^verbatim>\<open>"ml_theory"\<close> and
  \<^verbatim>\<open>"ml_practical"\<close>, \<^verbatim>\<open>CompleteInterviewGenerator.forward\<close> raises the error of
  the last branch, whose message names the type (the \<^verbatim>\<open>ValueError\<close> of the source is
  the specification's UnsupportedTypeError). The world is the one the call started in: no
  request was made, so neither the coding, the ML nor the follow-up generator has run.
\<close>

theorem unsupported_question_type_rejected:
  assumes "question_type \<notin> {''coding'', ''ml_theory'', ''ml_practical''}"
  shows "CompleteInterviewGenerator_forward svc topic question_type difficulty num_followups w
          = (Inl (ValueError (''Unknown question type: '' @ question_type)), w)"
  using assms by (simp add: CompleteInterviewGenerator_forward_def)

theorem unsupported_question_type_rejected_witness:
  "''sql'' \<notin> {''coding'', ''ml_theory'', ''ml_practical''} \<and>
   CompleteInterviewGenerator_forward echo_service ''joins'' ''sql'' ''easy'' (Some 2) fresh
     = (Inl (ValueError ''Unknown question type: sql''), fresh)"
  using unsupported_question_type_rejected
    [of "''sql''" echo_service "''joins''" "''easy''" "Some 2" fresh]
  by simp

section \<open>Single-stage generators: no validation of the inputs\<close>




section \<open>CompleteInterviewGenerator: the coding branch\<close>

text \<open>
  C3. When \<open>question_type\<close> is \<^verbatim>\<open>"coding"\<close> and the call returns, the coding generator
  has answered with a prediction, and the \<^verbatim>\<open>question\<close> entry of the result is the
  concatenation of its six fields \<open>question_title\<close>, \<open>question_description\<close>,
  \<open>input_format\<close>, \<open>output_format\<close>, \<open>constraints\<close>, \<open>example\<close>, in this order, with the
  literal labels and newlines of the template between them. The same string is the
  \<open>original_question\<close> of the follow-up request.
\<close>

theorem coding_main_question_template:
  assumes "question_type = ''coding''"
    and "CompleteInterviewGenerator_forward svc topic question_type difficulty num_followups w
          = (Inr r, w')"
  shows "\<exists>cr s1. cot_GenerateCodingQuestion svc topic difficulty (lm_state w) = (Inr cr, s1) \<and>
     r ''question'' = Some (Str (concat
       [question_title cr, ''\<newline>\<newline>'', question_description cr,
        ''\<newline>\<newline>Input: '', input_format cr,
        ''\<newline>Output: '', output_format cr,
        ''\<newline>\<newline>Constraints: '', constraints cr,
        ''\<newline>\<newline>Example:\<newline>'', example cr])) \<and>
     calls w' = calls w @ [GenerateCodingQuestion topic difficulty,
       GenerateFollowUp (concat
         [question_title cr, ''\<newline>\<newline>'', question_description cr,
          ''\<newline>\<newline>Input: '', input_format cr,
          ''\<newline>Output: '', output_format cr,
          ''\<newline>\<newline>Constraints: '', constraints cr,
          ''\<newline>\<newline>Example:\<newline>'', example cr]) topic
         (case num_followups of None \<Rightarrow> 3 | Some k \<Rightarrow> k)]"
proof -
  from assms have "CompleteInterviewGenerator_forward svc topic ''coding'' difficulty num_followups w
      = (Inr r, w')"
    by simp
  then obtain cr fr s1 where
    "cot_GenerateCodingQuestion svc topic difficulty (lm_state w) = (Inr cr, s1)"
    "cot_GenerateFollowUp svc (coding_main_question cr) topic
       (case num_followups of None \<Rightarrow> 3 | Some k \<Rightarrow> k) s1 = (Inr fr, lm_state w')"
    "calls w' = calls w @ [GenerateCodingQuestion topic difficulty,
       GenerateFollowUp (coding_main_question cr) topic (case num_followups of None \<Rightarrow> 3 | Some k \<Rightarrow> k)]"
    "r = [''question'' \<mapsto> Str (coding_main_question cr),
          ''details'' \<mapsto> CodingPrediction cr,
          ''difficulty'' \<mapsto> Str difficulty,
          ''followup_questions'' \<mapsto> Str (followup_questions fr)]"
    by (rule Complete_coding_success)
  then show ?thesis by (auto simp: coding_main_question_def)
qed

theorem coding_main_question_template_witness:
  "CompleteInterviewGenerator_forward echo_service ''graph algorithms'' ''coding'' ''hard'' (Some 3) fresh
     = (Inr [''question'' \<mapsto> Str ''Shortest Path\<newline>\<newline>Find it.\<newline>\<newline>Input: a graph\<newline>Output: a path\<newline>\<newline>Constraints: O(E log V)\<newline>\<newline>Example:\<newline>1 2'',
             ''details'' \<mapsto> CodingPrediction
                \<lparr>question_title = ''Shortest Path'', question_description = ''Find it.'',
                 input_format = ''a graph'', output_format = ''a path'',
                 constraints = ''O(E log V)'', example = ''1 2''\<rparr>,
             ''difficulty'' \<mapsto> Str ''hard'',
             ''followup_questions'' \<mapsto> Str ''1. Why? (graph algorithms)''],
        \<lparr>lm_state = 2, calls = [GenerateCodingQuestion ''graph algorithms'' ''hard'',
            GenerateFollowUp ''Shortest Path\<newline>\<newline>Find it.\<newline>\<newline>Input: a graph\<newline>Output: a path\<newline>\<newline>Constraints: O(E log V)\<newline>\<newline>Example:\<newline>1 2'' ''graph algorithms'' 3]\<rparr>)"
  using coding_main_question_template [OF refl echo_coding_run] echo_coding_run by simp

section \<open>InterviewPipeline: failure of the first stage\<close>

text \<open>
  C4. If the question generation stage of \<^verbatim>\<open>InterviewPipeline.forward\<close> raises an
  error, the pipeline raises that same error and returns no result; the only request of
  the run is the one of the question generator, so neither the follow-up generator nor
  the difficulty assessor has been called.
\<close>

theorem pipeline_fails_fast:
  assumes "QuestionGenerator_forward svc topic question_type difficulty w = (Inl e, w1)"
  shows "InterviewPipeline_forward svc topic question_type difficulty num_followups w = (Inl e, w1) \<and>
         calls w1 = calls w @ [GenerateQuestion topic question_type difficulty]"
  using assms
  by (auto simp: InterviewPipeline_forward_def QuestionGenerator_forward_def dest!: request_inv)

theorem pipeline_fails_fast_witness:
  "QuestionGenerator_forward failing_service ''heaps'' ''coding'' ''easy'' fresh
     = (Inl (ExternalError ''no question''),
        \<lparr>lm_state = 1, calls = [GenerateQuestion ''heaps'' ''coding'' ''easy'']\<rparr>) \<and>
   InterviewPipeline_forward failing_service ''heaps'' ''coding'' ''easy'' None fresh
     = (Inl (ExternalError ''no question''),
        \<lparr>lm_state = 1, calls = [GenerateQuestion ''heaps'' ''coding'' ''easy'']\<rparr>)"
proof -
  have h: "QuestionGenerator_forward failing_service ''heaps'' ''coding'' ''easy'' fresh
     = (Inl (ExternalError ''no question''),
        \<lparr>lm_state = 1, calls = [GenerateQuestion ''heaps'' ''coding'' ''easy'']\<rparr>)"
    by (simp add: QuestionGenerator_forward_def request_def failing_service_def
        echo_service_def fresh_def)
  from pipeline_fails_fast [OF h, of None] h show ?thesis by simp
qed

section \<open>InterviewPipeline: runs that return\<close>

text \<open>
  C5. On every run of \<^verbatim>\<open>InterviewPipeline.forward\<close> that returns, the entry
  \<^verbatim>\<open>requested_difficulty\<close> of the result is the \<open>difficulty\<close> string the caller
  gave, unchanged, and the entry \<^verbatim>\<open>assessed_difficulty\<close> is the field of that name of
  the prediction the difficulty assessor returned for the generated question. The two
  may differ: there is a run in which they do.
\<close>

theorem requested_difficulty_unchanged:
  "(InterviewPipeline_forward svc topic question_type difficulty num_followups w = (Inr r, w') \<longrightarrow>
      r ''requested_difficulty'' = Some difficulty \<and>
      (\<exists>q dr s. r ''question'' = Some q \<and>
         cot_AssessDifficulty svc q topic s = (Inr dr, lm_state w') \<and>
         r ''assessed_difficulty'' = Some (assessed_difficulty dr)))
   \<and> (\<exists>(svc0 :: nat completion_service) topic0 question_type0 difficulty0 num_followups0 w0 r0 w0'.
        InterviewPipeline_forward svc0 topic0 question_type0 difficulty0 num_followups0 w0 = (Inr r0, w0')
        \<and> r0 ''assessed_difficulty'' \<noteq> r0 ''requested_difficulty'')"
proof (intro conjI impI)
  assume "InterviewPipeline_forward svc topic question_type difficulty num_followups w = (Inr r, w')"
  then obtain qr fr dr s1 s2 where h:
    "cot_GenerateQuestion svc topic question_type difficulty (lm_state w) = (Inr qr, s1)"
    "cot_GenerateFollowUp svc (question qr) topic (case num_followups of None \<Rightarrow> 3 | Some k \<Rightarrow> k) s1
       = (Inr fr, s2)"
    "cot_AssessDifficulty svc (question qr) topic s2 = (Inr dr, lm_state w')"
    "calls w' = calls w @ [GenerateQuestion topic question_type difficulty,
        GenerateFollowUp (question qr) topic (case num_followups of None \<Rightarrow> 3 | Some k \<Rightarrow> k),
        AssessDifficulty (question qr) topic]"
    "r = [''question'' \<mapsto> question qr,
          ''explanation'' \<mapsto> explanation qr,
          ''requested_difficulty'' \<mapsto> difficulty,
          ''assessed_difficulty'' \<mapsto> assessed_difficulty dr,
          ''difficulty_reasoning'' \<mapsto> reasoning dr,
          ''followup_questions'' \<mapsto> followup_questions fr]"
    by (rule InterviewPipeline_success)
  from h(5) show "r ''requested_difficulty'' = Some difficulty" by simp
  from h(5) have "r ''question'' = Some (question qr)"
    "r ''assessed_difficulty'' = Some (assessed_difficulty dr)"
    by simp_all
  with h(3) show "\<exists>q dr s. r ''question'' = Some q \<and>
         cot_AssessDifficulty svc q topic s = (Inr dr, lm_state w') \<and>
         r ''assessed_difficulty'' = Some (assessed_difficulty dr)"
    by blast
next
  have "[''question'' \<mapsto> ''Explain heaps'',
             ''explanation'' \<mapsto> ''Tests coding'',
             ''requested_difficulty'' \<mapsto> ''easy'',
             ''assessed_difficulty'' \<mapsto> ''hard'',
             ''difficulty_reasoning'' \<mapsto> ''Needs heaps'',
             ''followup_questions'' \<mapsto> ''1. Why? (heaps)''] ''assessed_difficulty''
     \<noteq> [''question'' \<mapsto> ''Explain heaps'',
             ''explanation'' \<mapsto> ''Tests coding'',
             ''requested_difficulty'' \<mapsto> ''easy'',
             ''assessed_difficulty'' \<mapsto> ''hard'',
             ''difficulty_reasoning'' \<mapsto> ''Needs heaps'',
             ''followup_questions'' \<mapsto> ''1. Why? (heaps)''] ''requested_difficulty''"
    by simp
  with echo_pipeline_run
  show "\<exists>(svc0 :: nat completion_service) topic0 question_type0 difficulty0 num_followups0 w0 r0 w0'.
        InterviewPipeline_forward svc0 topic0 question_type0 difficulty0 num_followups0 w0 = (Inr r0, w0')
        \<and> r0 ''assessed_difficulty'' \<noteq> r0 ''requested_difficulty''"
    by blast
qed

theorem requested_difficulty_unchanged_witness:
  "InterviewPipeline_forward echo_service ''heaps'' ''coding'' ''easy'' (Some 2) fresh
     = (Inr [''question'' \<mapsto> ''Explain heaps'',
             ''explanation'' \<mapsto> ''Tests coding'',
             ''requested_difficulty'' \<mapsto> ''easy'',
             ''assessed_difficulty'' \<mapsto> ''hard'',
             ''difficulty_reasoning'' \<mapsto> ''Needs heaps'',
             ''followup_questions'' \<mapsto> ''1. Why? (heaps)''],
        \<lparr>lm_state = 3, calls = [GenerateQuestion ''heaps'' ''coding'' ''easy'',
            GenerateFollowUp ''Explain heaps'' ''heaps'' 2,
            AssessDifficulty ''Explain heaps'' ''heaps'']\<rparr>) \<and>
   [''question'' \<mapsto> ''Explain heaps'',
             ''explanation'' \<mapsto> ''Tests coding'',
             ''requested_difficulty'' \<mapsto> ''easy'',
             ''assessed_difficulty'' \<mapsto> ''hard'',
             ''difficulty_reasoning'' \<mapsto> ''Needs heaps'',
             ''followup_questions'' \<mapsto> ''1. Why? (heaps)''] ''requested_difficulty'' = Some ''easy'' \<and>
   [''question'' \<mapsto> ''Explain heaps'',
             ''explanation'' \<mapsto> ''Tests coding'',
             ''requested_difficulty'' \<mapsto> ''easy'',
             ''assessed_difficulty'' \<mapsto> ''hard'',
             ''difficulty_reasoning'' \<mapsto> ''Needs heaps'',
             ''followup_questions'' \<mapsto> ''1. Why? (heaps)''] ''assessed_difficulty'' = Some ''hard''"
  using requested_difficulty_unchanged
    [of echo_service "''heaps''" "''coding''" "''easy''" "Some 2" fresh
      "[''question'' \<mapsto> ''Explain heaps'',
             ''explanation'' \<mapsto> ''Tests coding'',
             ''requested_difficulty'' \<mapsto> ''easy'',
             ''assessed_difficulty'' \<mapsto> ''hard'',
             ''difficulty_reasoning'' \<mapsto> ''Needs heaps'',
             ''followup_questions'' \<mapsto> ''1. Why? (heaps)'']"
      "\<lparr>lm_state = 3, calls = [GenerateQuestion ''heaps'' ''coding'' ''easy'',
            GenerateFollowUp ''Explain heaps'' ''heaps'' 2,
            AssessDifficulty ''Explain heaps'' ''heaps'']\<rparr>"]
    echo_pipeline_run
  by simp

text \<open>
  C6. On every run of \<^verbatim>\<open>InterviewPipeline.forward\<close> that returns, the three requests
  were made in the order question generation, follow-up generation, difficulty
  assessment (the service went from state to state in that order, and the log holds the
  three requests in that order); the \<open>question\<close> of the first prediction is the
  \<open>original_question\<close> of the follow-up request and the \<open>question\<close> of the assessment
  request; and the result has exactly the six entries \<^verbatim>\<open>question\<close>,
  \<^verbatim>\<open>explanation\<close>, \<^verbatim>\<open>requested_difficulty\<close>, \<^verbatim>\<open>assessed_difficulty\<close>,
  \<^verbatim>\<open>difficulty_reasoning\<close>, \<^verbatim>\<open>followup_questions\<close>, made of the five output
  fields of the three predictions and of the requested difficulty.
\<close>

theorem pipeline_stage_order_and_merge:
  assumes "InterviewPipeline_forward svc topic question_type difficulty num_followups w = (Inr r, w')"
  shows "\<exists>qr fr dr s1 s2.
    cot_GenerateQuestion svc topic question_type difficulty (lm_state w) = (Inr qr, s1) \<and>
    cot_GenerateFollowUp svc (question qr) topic (case num_followups of None \<Rightarrow> 3 | Some k \<Rightarrow> k) s1
       = (Inr fr, s2) \<and>
    cot_AssessDifficulty svc (question qr) topic s2 = (Inr dr, lm_state w') \<and>
    calls w' = calls w @ [GenerateQuestion topic question_type difficulty,
        GenerateFollowUp (question qr) topic (case num_followups of None \<Rightarrow> 3 | Some k \<Rightarrow> k),
        AssessDifficulty (question qr) topic] \<and>
    r = [''question'' \<mapsto> question qr,
          ''explanation'' \<mapsto> explanation qr,
          ''requested_difficulty'' \<mapsto> difficulty,
          ''assessed_difficulty'' \<mapsto> assessed_difficulty dr,
          ''difficulty_reasoning'' \<mapsto> reasoning dr,
          ''followup_questions'' \<mapsto> followup_questions fr] \<and>
    dom r = {''question'', ''explanation'', ''requested_difficulty'', ''assessed_difficulty'',
             ''difficulty_reasoning'', ''followup_questions''}"
proof -
  from assms obtain qr fr dr s1 s2 where h:
    "cot_GenerateQuestion svc topic question_type difficulty (lm_state w) = (Inr qr, s1)"
    "cot_GenerateFollowUp svc (question qr) topic (case num_followups of None \<Rightarrow> 3 | Some k \<Rightarrow> k) s1
       = (Inr fr, s2)"
    "cot_AssessDifficulty svc (question qr) topic s2 = (Inr dr, lm_state w')"
    "calls w' = calls w @ [GenerateQuestion topic question_type difficulty,
        GenerateFollowUp (question qr) topic (case num_followups of None \<Rightarrow> 3 | Some k \<Rightarrow> k),
        AssessDifficulty (question qr) topic]"
    "r = [''question'' \<mapsto> question qr,
          ''explanation'' \<mapsto> explanation qr,
          ''requested_difficulty'' \<mapsto> difficulty,
          ''assessed_difficulty'' \<mapsto> assessed_difficulty dr,
          ''difficulty_reasoning'' \<mapsto> reasoning dr,
          ''followup_questions'' \<mapsto> followup_questions fr]"
    by (rule InterviewPipeline_success)
  from h(5) have "dom r = {''question'', ''explanation'', ''requested_difficulty'',
      ''assessed_difficulty'', ''difficulty_reasoning'', ''followup_questions''}"
    by (simp add: insert_commute)
  with h show ?thesis by blast
qed

theorem pipeline_stage_order_and_merge_witness:
  "InterviewPipeline_forward echo_service ''heaps'' ''coding'' ''easy'' (Some 2) fresh
     = (Inr [''question'' \<mapsto> ''Explain heaps'',
             ''explanation'' \<mapsto> ''Tests coding'',
             ''requested_difficulty'' \<mapsto> ''easy'',
             ''assessed_difficulty'' \<mapsto> ''hard'',
             ''difficulty_reasoning'' \<mapsto> ''Needs heaps'',
             ''followup_questions'' \<mapsto> ''1. Why? (heaps)''],
        \<lparr>lm_state = 3, calls = [GenerateQuestion ''heaps'' ''coding'' ''easy'',
            GenerateFollowUp ''Explain heaps'' ''heaps'' 2,
            AssessDifficulty ''Explain heaps'' ''heaps'']\<rparr>)"
  using pipeline_stage_order_and_merge [OF echo_pipeline_run] echo_pipeline_run by simp

section \<open>CompleteInterviewGenerator: the ML branches and the result\<close>

text \<open>
  C7. When \<open>question_type\<close> is \<^verbatim>\<open>"ml_theory"\<close> the first request of
  \<^verbatim>\<open>CompleteInterviewGenerator.forward\<close> is to the ML question generator with
  \<open>question_style\<close> \<^verbatim>\<open>"theoretical"\<close>, and when it is \<^verbatim>\<open>"ml_practical"\<close>, with
  \<^verbatim>\<open>"practical"\<close>. If the call returns, the \<^verbatim>\<open>question\<close> entry of the result (and
  the \<open>original_question\<close> of the follow-up request) is the \<open>question\<close> field of the ML
  prediction, and the \<^verbatim>\<open>details\<close> entry is that whole prediction.
\<close>

theorem ml_branches_style_and_details:
  assumes "question_type = ''ml_theory'' \<and> style = ''theoretical'' \<or>
           question_type = ''ml_practical'' \<and> style = ''practical''"
  shows "(\<exists>rest. calls (snd (CompleteInterviewGenerator_forward svc topic question_type difficulty
            num_followups w)) = calls w @ GenerateMLQuestion topic difficulty style # rest) \<and>
     (\<forall>r w'. CompleteInterviewGenerator_forward svc topic question_type difficulty num_followups w
          = (Inr r, w') \<longrightarrow>
        (\<exists>mr s1. cot_GenerateMLQuestion svc topic difficulty style (lm_state w) = (Inr mr, s1) \<and>
           r ''question'' = Some (Str (ml_question mr)) \<and>
           r ''details'' = Some (MLPrediction mr) \<and>
           calls w' = calls w @ [GenerateMLQuestion topic difficulty style,
             GenerateFollowUp (ml_question mr) topic
               (case num_followups of None \<Rightarrow> 3 | Some k \<Rightarrow> k)]))"
proof (intro conjI allI impI)
  show "\<exists>rest. calls (snd (CompleteInterviewGenerator_forward svc topic question_type difficulty
            num_followups w)) = calls w @ GenerateMLQuestion topic difficulty style # rest"
    using assms by (rule Complete_ml_first_call)
next
  fix r w'
  assume "CompleteInterviewGenerator_forward svc topic question_type difficulty num_followups w
          = (Inr r, w')"
  from this assms obtain mr fr s1 where
    "cot_GenerateMLQuestion svc topic difficulty style (lm_state w) = (Inr mr, s1)"
    "cot_GenerateFollowUp svc (ml_question mr) topic
       (case num_followups of None \<Rightarrow> 3 | Some k \<Rightarrow> k) s1 = (Inr fr, lm_state w')"
    "calls w' = calls w @ [GenerateMLQuestion topic difficulty style,
       GenerateFollowUp (ml_question mr) topic (case num_followups of None \<Rightarrow> 3 | Some k \<Rightarrow> k)]"
    "r = [''question'' \<mapsto> Str (ml_question mr),
          ''details'' \<mapsto> MLPrediction mr,
          ''difficulty'' \<mapsto> Str difficulty,
          ''followup_questions'' \<mapsto> Str (followup_questions fr)]"
    by (rule Complete_ml_success)
  then show "\<exists>mr s1. cot_GenerateMLQuestion svc topic difficulty style (lm_state w) = (Inr mr, s1) \<and>
           r ''question'' = Some (Str (ml_question mr)) \<and>
           r ''details'' = Some (MLPrediction mr) \<and>
           calls w' = calls w @ [GenerateMLQuestion topic difficulty style,
             GenerateFollowUp (ml_question mr) topic
               (case num_followups of None \<Rightarrow> 3 | Some k \<Rightarrow> k)]"
    by auto
qed

theorem ml_branches_style_and_details_witness:
  "CompleteInterviewGenerator_forward echo_service ''overfitting'' ''ml_theory'' ''medium'' None fresh
     = (Inr [''question'' \<mapsto> Str ''A theoretical question on overfitting'',
             ''details'' \<mapsto> MLPrediction
                \<lparr>ml_question = ''A theoretical question on overfitting'',
                 key_concepts = ''bias'', expected_depth = ''medium''\<rparr>,
             ''difficulty'' \<mapsto> Str ''medium'',
             ''followup_questions'' \<mapsto> Str ''1. Why? (overfitting)''],
        \<lparr>lm_state = 2, calls = [GenerateMLQuestion ''overfitting'' ''medium'' ''theoretical'',
            GenerateFollowUp ''A theoretical question on overfitting'' ''overfitting'' 3]\<rparr>) \<and>
   CompleteInterviewGenerator_forward echo_service ''CNN'' ''ml_practical'' ''hard'' (Some (- 1)) fresh
     = (Inr [''question'' \<mapsto> Str ''A practical question on CNN'',
             ''details'' \<mapsto> MLPrediction
                \<lparr>ml_question = ''A practical question on CNN'',
                 key_concepts = ''bias'', expected_depth = ''hard''\<rparr>,
             ''difficulty'' \<mapsto> Str ''hard'',
             ''followup_questions'' \<mapsto> Str ''1. Why? (CNN)''],
        \<lparr>lm_state = 2, calls = [GenerateMLQuestion ''CNN'' ''hard'' ''practical'',
            GenerateFollowUp ''A practical question on CNN'' ''CNN'' (- 1)]\<rparr>)"
  using ml_branches_style_and_details
      [of "''ml_theory''" "''theoretical''" echo_service "''overfitting''" "''medium''" None fresh]
    ml_branches_style_and_details
      [of "''ml_practical''" "''practical''" echo_service "''CNN''" "''hard''" "Some (- 1)" fresh]
    echo_ml_theory_run echo_ml_practical_run
  by simp

text \<open>
  C10. On every run of \<^verbatim>\<open>CompleteInterviewGenerator.forward\<close> that returns, whichever
  branch was taken, the \<^verbatim>\<open>difficulty\<close> entry of the result is the \<open>difficulty\<close> string
  the caller gave, unchanged.
\<close>

theorem complete_difficulty_unchanged:
  assumes "CompleteInterviewGenerator_forward svc topic question_type difficulty num_followups w
            = (Inr r, w')"
  shows "r ''difficulty'' = Some (Str difficulty)"
proof -
  from assms have "question_type \<in> {''coding'', ''ml_theory'', ''ml_practical''}"
    by (rule Complete_success_branch)
  then consider "question_type = ''coding''"
    | style where "question_type = ''ml_theory'' \<and> style = ''theoretical'' \<or>
         question_type = ''ml_practical'' \<and> style = ''practical''"
    by auto
  then show ?thesis
  proof cases
    case 1
    with assms have "CompleteInterviewGenerator_forward svc topic ''coding'' difficulty num_followups w
      = (Inr r, w')"
      by simp
    then show ?thesis by (rule Complete_coding_success) simp
  next
    case 2
    with assms show ?thesis by (rule Complete_ml_success) simp
  qed
qed

theorem complete_difficulty_unchanged_witness:
  "CompleteInterviewGenerator_forward echo_service ''graph algorithms'' ''coding'' ''hard'' (Some 3) fresh
     = (Inr [''question'' \<mapsto> Str ''Shortest Path\<newline>\<newline>Find it.\<newline>\<newline>Input: a graph\<newline>Output: a path\<newline>\<newline>Constraints: O(E log V)\<newline>\<newline>Example:\<newline>1 2'',
             ''details'' \<mapsto> CodingPrediction
                \<lparr>question_title = ''Shortest Path'', question_description = ''Find it.'',
                 input_format = ''a graph'', output_format = ''a path'',
                 constraints = ''O(E log V)'', example = ''1 2''\<rparr>,
             ''difficulty'' \<mapsto> Str ''hard'',
             ''followup_questions'' \<mapsto> Str ''1. Why? (graph algorithms)''],
        \<lparr>lm_state = 2, calls = [GenerateCodingQuestion ''graph algorithms'' ''hard'',
            GenerateFollowUp ''Shortest Path\<newline>\<newline>Find it.\<newline>\<newline>Input: a graph\<newline>Output: a path\<newline>\<newline>Constraints: O(E log V)\<newline>\<newline>Example:\<newline>1 2'' ''graph algorithms'' 3]\<rparr>) \<and>
   CompleteInterviewGenerator_forward echo_service ''CNN'' ''ml_practical'' ''hard'' (Some (- 1)) fresh
     = (Inr [''question'' \<mapsto> Str ''A practical question on CNN'',
             ''details'' \<mapsto> MLPrediction
                \<lparr>ml_question = ''A practical question on CNN'',
                 key_concepts = ''bias'', expected_depth = ''hard''\<rparr>,
             ''difficulty'' \<mapsto> Str ''hard'',
             ''followup_questions'' \<mapsto> Str ''1. Why? (CNN)''],
        \<lparr>lm_state = 2, calls = [GenerateMLQuestion ''CNN'' ''hard'' ''practical'',
            GenerateFollowUp ''A practical question on CNN'' ''CNN'' (- 1)]\<rparr>)"
  using complete_difficulty_unchanged [OF echo_coding_run]
    complete_difficulty_unchanged [OF echo_ml_practical_run]
    echo_coding_run echo_ml_practical_run
  by simp

section \<open>The default and the passing on of \<open>num_followups\<close>\<close>

text \<open>
  With a given value \<open>n\<close> of \<open>num_followups\<close>, each \<open>forward\<close> is a function of the
  answers of the predictors alone, and the follow-up predictor is the one asked with
  \<open>n\<close>.
\<close>

lemma FollowUpGenerator_forward_given:
  "FollowUpGenerator_forward svc original_question topic (Some n) w
     = (case cot_GenerateFollowUp svc original_question topic n (lm_state w) of
          (a, s1) \<Rightarrow>
            (a, \<lparr>lm_state = s1,
                 calls = calls w @ [GenerateFollowUp original_question topic n]\<rparr>))"
  by (simp add: FollowUpGenerator_forward_def request_def)

lemma InterviewPipeline_forward_given:
  "InterviewPipeline_forward svc topic question_type difficulty (Some n) w
     = (case cot_GenerateQuestion svc topic question_type difficulty (lm_state w) of
          (Inl e, s1) \<Rightarrow>
            (Inl e, \<lparr>lm_state = s1,
                     calls = calls w @ [GenerateQuestion topic question_type difficulty]\<rparr>)
        | (Inr qr, s1) \<Rightarrow>
            (case cot_GenerateFollowUp svc (question qr) topic n s1 of
               (Inl e, s2) \<Rightarrow>
                 (Inl e, \<lparr>lm_state = s2,
                          calls = calls w @ [GenerateQuestion topic question_type difficulty,
                            GenerateFollowUp (question qr) topic n]\<rparr>)
             | (Inr fr, s2) \<Rightarrow>
                 (case cot_AssessDifficulty svc (question qr) topic s2 of
                    (Inl e, s3) \<Rightarrow>
                      (Inl e, \<lparr>lm_state = s3,
                               calls = calls w @ [GenerateQuestion topic question_type difficulty,
                                 GenerateFollowUp (question qr) topic n,
                                 AssessDifficulty (question qr) topic]\<rparr>)
                  | (Inr dr, s3) \<Rightarrow>
                      (Inr [''question'' \<mapsto> question qr,
                            ''explanation'' \<mapsto> explanation qr,
                            ''requested_difficulty'' \<mapsto> difficulty,
                            ''assessed_difficulty'' \<mapsto> assessed_difficulty dr,
                            ''difficulty_reasoning'' \<mapsto> reasoning dr,
                            ''followup_questions'' \<mapsto> followup_questions fr],
                       \<lparr>lm_state = s3,
                        calls = calls w @ [GenerateQuestion topic question_type difficulty,
                          GenerateFollowUp (question qr) topic n,
                          AssessDifficulty (question qr) topic]\<rparr>))))"
  by (simp add: InterviewPipeline_forward_def generator_defs request_def
      split: prod.splits sum.splits)

lemma CompleteInterviewGenerator_forward_given:
  "CompleteInterviewGenerator_forward svc topic question_type difficulty (Some n) w
     = (if question_type = ''coding'' then
          (case cot_GenerateCodingQuestion svc topic difficulty (lm_state w) of
             (Inl e, s1) \<Rightarrow>
               (Inl e, \<lparr>lm_state = s1,
                        calls = calls w @ [GenerateCodingQuestion topic difficulty]\<rparr>)
           | (Inr cr, s1) \<Rightarrow>
               (case cot_GenerateFollowUp svc (coding_main_question cr) topic n s1 of
                  (Inl e, s2) \<Rightarrow>
                    (Inl e, \<lparr>lm_state = s2,
                             calls = calls w @ [GenerateCodingQuestion topic difficulty,
                               GenerateFollowUp (coding_main_question cr) topic n]\<rparr>)
                | (Inr fr, s2) \<Rightarrow>
                    (Inr [''question'' \<mapsto> Str (coding_main_question cr),
                          ''details'' \<mapsto> CodingPrediction cr,
                          ''difficulty'' \<mapsto> Str difficulty,
                          ''followup_questions'' \<mapsto> Str (followup_questions fr)],
                     \<lparr>lm_state = s2,
                      calls = calls w @ [GenerateCodingQuestion topic difficulty,
                        GenerateFollowUp (coding_main_question cr) topic n]\<rparr>)))
        else if question_type \<in> {''ml_theory'', ''ml_practical''} then
          (let style = (if question_type = ''ml_theory'' then ''theoretical'' else ''practical'')
           in case cot_GenerateMLQuestion svc topic difficulty style (lm_state w) of
                (Inl e, s1) \<Rightarrow>
                  (Inl e, \<lparr>lm_state = s1,
                           calls = calls w @ [GenerateMLQuestion topic difficulty style]\<rparr>)
              | (Inr mr, s1) \<Rightarrow>
                  (case cot_GenerateFollowUp svc (ml_question mr) topic n s1 of
                     (Inl e, s2) \<Rightarrow>
                       (Inl e, \<lparr>lm_state = s2,
                                calls = calls w @ [GenerateMLQuestion topic difficulty style,
                                  GenerateFollowUp (ml_question mr) topic n]\<rparr>)
                   | (Inr fr, s2) \<Rightarrow>
                       (Inr [''question'' \<mapsto> Str (ml_question mr),
                             ''details'' \<mapsto> MLPrediction mr,
                             ''difficulty'' \<mapsto> Str difficulty,
                             ''followup_questions'' \<mapsto> Str (followup_questions fr)],
                        \<lparr>lm_state = s2,
                         calls = calls w @ [GenerateMLQuestion topic difficulty style,
                           GenerateFollowUp (ml_question mr) topic n]\<rparr>)))
        else (Inl (ValueError (''Unknown question type: '' @ question_type)), w))"
  by (simp add: CompleteInterviewGenerator_forward_def generate_followups_def generator_defs
      request_def Let_def split: prod.splits sum.splits)

text \<open>
  C9. A call that leaves \<open>num_followups\<close> out behaves as the call with the value 3, in
  \<^verbatim>\<open>FollowUpGenerator.forward\<close>, \<^verbatim>\<open>InterviewPipeline.forward\<close> and
  \<^verbatim>\<open>CompleteInterviewGenerator.forward\<close> alike. A value \<open>n\<close> the caller gives,
  whatever integer it is (zero and negative ones included), is not checked: the
  follow-up predictor is asked with \<open>n\<close> itself, the request logged carries \<open>n\<close>, and
  the outcome of each of the three calls is made of the answers of the predictors and
  of nothing else, so that no error is raised on account of \<open>n\<close>. For the two
  pipelines the follow-up predictor is asked whenever the stage before it has answered
  with a prediction.
\<close>

theorem num_followups_default_and_passthrough:
  "FollowUpGenerator_forward svc original_question topic None w
     = FollowUpGenerator_forward svc original_question topic (Some 3) w \<and>
   InterviewPipeline_forward svc topic question_type difficulty None w
     = InterviewPipeline_forward svc topic question_type difficulty (Some 3) w \<and>
   CompleteInterviewGenerator_forward svc topic question_type difficulty None w
     = CompleteInterviewGenerator_forward svc topic question_type difficulty (Some 3) w \<and>
   FollowUpGenerator_forward svc original_question topic (Some n) w
     = (case cot_GenerateFollowUp svc original_question topic n (lm_state w) of
          (a, s1) \<Rightarrow>
            (a, \<lparr>lm_state = s1,
                 calls = calls w @ [GenerateFollowUp original_question topic n]\<rparr>)) \<and>
   InterviewPipeline_forward svc topic question_type difficulty (Some n) w
     = (case cot_GenerateQuestion svc topic question_type difficulty (lm_state w) of
          (Inl e, s1) \<Rightarrow>
            (Inl e, \<lparr>lm_state = s1,
                     calls = calls w @ [GenerateQuestion topic question_type difficulty]\<rparr>)
        | (Inr qr, s1) \<Rightarrow>
            (case cot_GenerateFollowUp svc (question qr) topic n s1 of
               (Inl e, s2) \<Rightarrow>
                 (Inl e, \<lparr>lm_state = s2,
                          calls = calls w @ [GenerateQuestion topic question_type difficulty,
                            GenerateFollowUp (question qr) topic n]\<rparr>)
             | (Inr fr, s2) \<Rightarrow>
                 (case cot_AssessDifficulty svc (question qr) topic s2 of
                    (Inl e, s3) \<Rightarrow>
                      (Inl e, \<lparr>lm_state = s3,
                               calls = calls w @ [GenerateQuestion topic question_type difficulty,
                                 GenerateFollowUp (question qr) topic n,
                                 AssessDifficulty (question qr) topic]\<rparr>)
                  | (Inr dr, s3) \<Rightarrow>
                      (Inr [''question'' \<mapsto> question qr,
                            ''explanation'' \<mapsto> explanation qr,
                            ''requested_difficulty'' \<mapsto> difficulty,
                            ''assessed_difficulty'' \<mapsto> assessed_difficulty dr,
                            ''difficulty_reasoning'' \<mapsto> reasoning dr,
                            ''followup_questions'' \<mapsto> followup_questions fr],
                       \<lparr>lm_state = s3,
                        calls = calls w @ [GenerateQuestion topic question_type difficulty,
                          GenerateFollowUp (question qr) topic n,
                          AssessDifficulty (question qr) topic]\<rparr>)))) \<and>
   CompleteInterviewGenerator_forward svc topic question_type difficulty (Some n) w
     = (if question_type = ''coding'' then
          (case cot_GenerateCodingQuestion svc topic difficulty (lm_state w) of
             (Inl e, s1) \<Rightarrow>
               (Inl e, \<lparr>lm_state = s1,
                        calls = calls w @ [GenerateCodingQuestion topic difficulty]\<rparr>)
           | (Inr cr, s1) \<Rightarrow>
               (case cot_GenerateFollowUp svc (coding_main_question cr) topic n s1 of
                  (Inl e, s2) \<Rightarrow>
                    (Inl e, \<lparr>lm_state = s2,
                             calls = calls w @ [GenerateCodingQuestion topic difficulty,
                               GenerateFollowUp (coding_main_question cr) topic n]\<rparr>)
                | (Inr fr, s2) \<Rightarrow>
                    (Inr [''question'' \<mapsto> Str (coding_main_question cr),
                          ''details'' \<mapsto> CodingPrediction cr,
                          ''difficulty'' \<mapsto> Str difficulty,
                          ''followup_questions'' \<mapsto> Str (followup_questions fr)],
                     \<lparr>lm_state = s2,
                      calls = calls w @ [GenerateCodingQuestion topic difficulty,
                        GenerateFollowUp (coding_main_question cr) topic n]\<rparr>)))
        else if question_type \<in> {''ml_theory'', ''ml_practical''} then
          (let style = (if question_type = ''ml_theory'' then ''theoretical'' else ''practical'')
           in case cot_GenerateMLQuestion svc topic difficulty style (lm_state w) of
                (Inl e, s1) \<Rightarrow>
                  (Inl e, \<lparr>lm_state = s1,
                           calls = calls w @ [GenerateMLQuestion topic difficulty style]\<rparr>)
              | (Inr mr, s1) \<Rightarrow>
                  (case cot_GenerateFollowUp svc (ml_question mr) topic n s1 of
                     (Inl e, s2) \<Rightarrow>
                       (Inl e, \<lparr>lm_state = s2,
                                calls = calls w @ [GenerateMLQuestion topic difficulty style,
                                  GenerateFollowUp (ml_question mr) topic n]\<rparr>)
                   | (Inr fr, s2) \<Rightarrow>
                       (Inr [''question'' \<mapsto> Str (ml_question mr),
                             ''details'' \<mapsto> MLPrediction mr,
                             ''difficulty'' \<mapsto> Str difficulty,
                             ''followup_questions'' \<mapsto> Str (followup_questions fr)],
                        \<lparr>lm_state = s2,
                         calls = calls w @ [GenerateMLQuestion topic difficulty style,
                           GenerateFollowUp (ml_question mr) topic n]\<rparr>)))
        else (Inl (ValueError (''Unknown question type: '' @ question_type)), w))"
proof (intro conjI)
  show "FollowUpGenerator_forward svc original_question topic (Some n) w
     = (case cot_GenerateFollowUp svc original_question topic n (lm_state w) of
          (a, s1) \<Rightarrow>
            (a, \<lparr>lm_state = s1,
                 calls = calls w @ [GenerateFollowUp original_question topic n]\<rparr>))"
    by (rule FollowUpGenerator_forward_given)
next
  show "InterviewPipeline_forward svc topic question_type difficulty (Some n) w
     = (case cot_GenerateQuestion svc topic question_type difficulty (lm_state w) of
          (Inl e, s1) \<Rightarrow>
            (Inl e, \<lparr>lm_state = s1,
                     calls = calls w @ [GenerateQuestion topic question_type difficulty]\<rparr>)
        | (Inr qr, s1) \<Rightarrow>
            (case cot_GenerateFollowUp svc (question qr) topic n s1 of
               (Inl e, s2) \<Rightarrow>
                 (Inl e, \<lparr>lm_state = s2,
                          calls = calls w @ [GenerateQuestion topic question_type difficulty,
                            GenerateFollowUp (question qr) topic n]\<rparr>)
             | (Inr fr, s2) \<Rightarrow>
                 (case cot_AssessDifficulty svc (question qr) topic s2 of
                    (Inl e, s3) \<Rightarrow>
                      (Inl e, \<lparr>lm_state = s3,
                               calls = calls w @ [GenerateQuestion topic question_type difficulty,
                                 GenerateFollowUp (question qr) topic n,
                                 AssessDifficulty (question qr) topic]\<rparr>)
                  | (Inr dr, s3) \<Rightarrow>
                      (Inr [''question'' \<mapsto> question qr,
                            ''explanation'' \<mapsto> explanation qr,
                            ''requested_difficulty'' \<mapsto> difficulty,
                            ''assessed_difficulty'' \<mapsto> assessed_difficulty dr,
                            ''difficulty_reasoning'' \<mapsto> reasoning dr,
                            ''followup_questions'' \<mapsto> followup_questions fr],
                       \<lparr>lm_state = s3,
                        calls = calls w @ [GenerateQuestion topic question_type difficulty,
                          GenerateFollowUp (question qr) topic n,
                          AssessDifficulty (question qr) topic]\<rparr>))))"
    by (rule InterviewPipeline_forward_given)
next
  show "CompleteInterviewGenerator_forward svc topic question_type difficulty (Some n) w
     = (if question_type = ''coding'' then
          (case cot_GenerateCodingQuestion svc topic difficulty (lm_state w) of
             (Inl e, s1) \<Rightarrow>
               (Inl e, \<lparr>lm_state = s1,
                        calls = calls w @ [GenerateCodingQuestion topic difficulty]\<rparr>)
           | (Inr cr, s1) \<Rightarrow>
               (case cot_GenerateFollowUp svc (coding_main_question cr) topic n s1 of
                  (Inl e, s2) \<Rightarrow>
                    (Inl e, \<lparr>lm_state = s2,
                             calls = calls w @ [GenerateCodingQuestion topic difficulty,
                               GenerateFollowUp (coding_main_question cr) topic n]\<rparr>)
                | (Inr fr, s2) \<Rightarrow>
                    (Inr [''question'' \<mapsto> Str (coding_main_question cr),
                          ''details'' \<mapsto> CodingPrediction cr,
                          ''difficulty'' \<mapsto> Str difficulty,
                          ''followup_questions'' \<mapsto> Str (followup_questions fr)],
                     \<lparr>lm_state = s2,
                      calls = calls w @ [GenerateCodingQuestion topic difficulty,
                        GenerateFollowUp (coding_main_question cr) topic n]\<rparr>)))
        else if question_type \<in> {''ml_theory'', ''ml_practical''} then
          (let style = (if question_type = ''ml_theory'' then ''theoretical'' else ''practical'')
           in case cot_GenerateMLQuestion svc topic difficulty style (lm_state w) of
                (Inl e, s1) \<Rightarrow>
                  (Inl e, \<lparr>lm_state = s1,
                           calls = calls w @ [GenerateMLQuestion topic difficulty style]\<rparr>)
              | (Inr mr, s1) \<Rightarrow>
                  (case cot_GenerateFollowUp svc (ml_question mr) topic n s1 of
                     (Inl e, s2) \<Rightarrow>
                       (Inl e, \<lparr>lm_state = s2,
                                calls = calls w @ [GenerateMLQuestion topic difficulty style,
                                  GenerateFollowUp (ml_question mr) topic n]\<rparr>)
                   | (Inr fr, s2) \<Rightarrow>
                       (Inr [''question'' \<mapsto> Str (ml_question mr),
                             ''details'' \<mapsto> MLPrediction mr,
                             ''difficulty'' \<mapsto> Str difficulty,
                             ''followup_questions'' \<mapsto> Str (followup_questions fr)],
                        \<lparr>lm_state = s2,
                         calls = calls w @ [GenerateMLQuestion topic difficulty style,
                           GenerateFollowUp (ml_question mr) topic n]\<rparr>)))
        else (Inl (ValueError (''Unknown question type: '' @ question_type)), w))"
    by (rule CompleteInterviewGenerator_forward_given)
qed (simp_all add: FollowUpGenerator_forward_def InterviewPipeline_forward_def
      CompleteInterviewGenerator_forward_def)

theorem num_followups_default_and_passthrough_witness:
  "InterviewPipeline_forward echo_service ''heaps'' ''coding'' ''easy'' (Some 0) fresh
     = (Inr [''question'' \<mapsto> ''Explain heaps'',
             ''explanation'' \<mapsto> ''Tests coding'',
             ''requested_difficulty'' \<mapsto> ''easy'',
             ''assessed_difficulty'' \<mapsto> ''hard'',
             ''difficulty_reasoning'' \<mapsto> ''Needs heaps'',
             ''followup_questions'' \<mapsto> ''1. Why? (heaps)''],
        \<lparr>lm_state = 3, calls = [GenerateQuestion ''heaps'' ''coding'' ''easy'',
            GenerateFollowUp ''Explain heaps'' ''heaps'' 0,
            AssessDifficulty ''Explain heaps'' ''heaps'']\<rparr>) \<and>
   CompleteInterviewGenerator_forward echo_service ''CNN'' ''ml_practical'' ''hard'' (Some (- 1)) fresh
     = (Inr [''question'' \<mapsto> Str ''A practical question on CNN'',
             ''details'' \<mapsto> MLPrediction
                \<lparr>ml_question = ''A practical question on CNN'',
                 key_concepts = ''bias'', expected_depth = ''hard''\<rparr>,
             ''difficulty'' \<mapsto> Str ''hard'',
             ''followup_questions'' \<mapsto> Str ''1. Why? (CNN)''],
        \<lparr>lm_state = 2, calls = [GenerateMLQuestion ''CNN'' ''hard'' ''practical'',
            GenerateFollowUp ''A practical question on CNN'' ''CNN'' (- 1)]\<rparr>) \<and>
   FollowUpGenerator_forward echo_service ''Explain heaps'' ''heaps'' None fresh
     = (Inr \<lparr>followup_questions = ''1. Why? (heaps)''\<rparr>,
        \<lparr>lm_state = 1, calls = [GenerateFollowUp ''Explain heaps'' ''heaps'' 3]\<rparr>)"
  using num_followups_default_and_passthrough
      [of echo_service "''Explain heaps''" "''heaps''" fresh "''coding''" "''easy''" 0]
    num_followups_default_and_passthrough
      [of echo_service "''Explain heaps''" "''heaps''" fresh "''coding''" "''easy''" 3]
    num_followups_default_and_passthrough
      [of echo_service "''Q''" "''CNN''" fresh "''ml_practical''" "''hard''" "- 1"]
  by (simp add: echo_service_def fresh_def)

section \<open>The reordered pipeline against the pipeline of the source\<close>

lemma swapped_result:
  "(case fst (InterviewPipeline_forward_swapped (stateless p) topic question_type difficulty
             num_followups w) of Inl e \<Rightarrow> None | Inr r \<Rightarrow> Some r)
   = (case fst (InterviewPipeline_forward (stateless p) topic question_type difficulty
             num_followups w) of Inl e \<Rightarrow> None | Inr r \<Rightarrow> Some r)"
  by (simp add: InterviewPipeline_forward_swapped_def InterviewPipeline_forward_def generator_defs
      request_def stateless_def Let_def split: prod.splits sum.splits)

lemma swapped_outcome:
  assumes "\<And>qr e2 e3. ans_GenerateQuestion p topic question_type difficulty = Inr qr \<Longrightarrow>
      ans_GenerateFollowUp p (question qr) topic (case num_followups of None \<Rightarrow> 3 | Some k \<Rightarrow> k) = Inl e2 \<Longrightarrow>
      ans_AssessDifficulty p (question qr) topic = Inl e3 \<Longrightarrow> e2 = e3"
  shows "fst (InterviewPipeline_forward_swapped (stateless p) topic question_type difficulty
             num_followups w)
       = fst (InterviewPipeline_forward (stateless p) topic question_type difficulty
             num_followups w)"
  using assms
  by (auto simp: InterviewPipeline_forward_swapped_def InterviewPipeline_forward_def generator_defs
      request_def stateless_def Let_def split: prod.splits sum.splits)

lemma swapped_both_fail:
  assumes "ans_GenerateQuestion p topic question_type difficulty = Inr qr"
    and "ans_GenerateFollowUp p (question qr) topic (case num_followups of None \<Rightarrow> 3 | Some k \<Rightarrow> k) = Inl e2"
    and "ans_AssessDifficulty p (question qr) topic = Inl e3"
  shows "fst (InterviewPipeline_forward (stateless p) topic question_type difficulty
             num_followups w) = Inl e2"
    and "fst (InterviewPipeline_forward_swapped (stateless p) topic question_type difficulty
             num_followups w) = Inl e3"
  using assms
  by (simp_all add: InterviewPipeline_forward_swapped_def InterviewPipeline_forward_def
      generator_defs request_def stateless_def Let_def)

text \<open>
  C8, as the specification states it, fails: the error that a pipeline raises is
  observable, and where the follow-up request and the assessment request both fail, the
  order of the source raises the error of the follow-up generator and the reordered
  pipeline the error of the assessor.
\<close>

theorem swapped_stages_error_differs:
  "fst (InterviewPipeline_forward (stateless pure_failing)
          ''heaps'' ''coding'' ''easy'' (Some 2) fresh)
     = Inl (ExternalError ''no followups'') \<and>
   fst (InterviewPipeline_forward_swapped (stateless pure_failing)
          ''heaps'' ''coding'' ''easy'' (Some 2) fresh)
     = Inl (ExternalError ''no assessment'') \<and>
   fst (InterviewPipeline_forward_swapped (stateless pure_failing)
          ''heaps'' ''coding'' ''easy'' (Some 2) fresh)
     \<noteq> fst (InterviewPipeline_forward (stateless pure_failing)
          ''heaps'' ''coding'' ''easy'' (Some 2) fresh)"
  by (simp add: InterviewPipeline_forward_swapped_def InterviewPipeline_forward_def
      generator_defs request_def stateless_def pure_failing_def pure_answers_def fresh_def)

text \<open>
  C8, amended. With the completion service a fixed pure function, the pipeline that runs
  the difficulty assessment before the follow-up generation produces a result exactly
  when \<^verbatim>\<open>InterviewPipeline.forward\<close> does, and it is the same result: both stages
  read only the first stage's \<open>question\<close> (and the caller's \<open>topic\<close> and
  \<open>num_followups\<close>). The whole outcome, a propagated error included, is the same in both
  orders, unless the follow-up request and the assessment request both fail, with
  different errors; then neither order produces a result, and each propagates the error
  of the stage it runs first.
\<close>

theorem swapped_stages_same_result:
  "(case fst (InterviewPipeline_forward_swapped (stateless p) topic question_type difficulty
             num_followups w) of Inl e \<Rightarrow> None | Inr r \<Rightarrow> Some r)
   = (case fst (InterviewPipeline_forward (stateless p) topic question_type difficulty
             num_followups w) of Inl e \<Rightarrow> None | Inr r \<Rightarrow> Some r) \<and>
   ((\<forall>qr e2 e3. ans_GenerateQuestion p topic question_type difficulty = Inr qr \<longrightarrow>
        ans_GenerateFollowUp p (question qr) topic (case num_followups of None \<Rightarrow> 3 | Some k \<Rightarrow> k) = Inl e2 \<longrightarrow>
        ans_AssessDifficulty p (question qr) topic = Inl e3 \<longrightarrow> e2 = e3) \<longrightarrow>
      fst (InterviewPipeline_forward_swapped (stateless p) topic question_type difficulty
             num_followups w)
      = fst (InterviewPipeline_forward (stateless p) topic question_type difficulty
             num_followups w)) \<and>
   (\<forall>qr e2 e3. ans_GenerateQuestion p topic question_type difficulty = Inr qr \<longrightarrow>
        ans_GenerateFollowUp p (question qr) topic (case num_followups of None \<Rightarrow> 3 | Some k \<Rightarrow> k) = Inl e2 \<longrightarrow>
        ans_AssessDifficulty p (question qr) topic = Inl e3 \<longrightarrow>
        fst (InterviewPipeline_forward (stateless p) topic question_type difficulty
               num_followups w) = Inl e2 \<and>
        fst (InterviewPipeline_forward_swapped (stateless p) topic question_type difficulty
               num_followups w) = Inl e3)"
proof (intro conjI allI impI)
  show "(case fst (InterviewPipeline_forward_swapped (stateless p) topic question_type difficulty
             num_followups w) of Inl e \<Rightarrow> None | Inr r \<Rightarrow> Some r)
   = (case fst (InterviewPipeline_forward (stateless p) topic question_type difficulty
             num_followups w) of Inl e \<Rightarrow> None | Inr r \<Rightarrow> Some r)"
    by (rule swapped_result)
next
  assume "(\<forall>qr e2 e3. ans_GenerateQuestion p topic question_type difficulty = Inr qr \<longrightarrow>
        ans_GenerateFollowUp p (question qr) topic (case num_followups of None \<Rightarrow> 3 | Some k \<Rightarrow> k) = Inl e2 \<longrightarrow>
        ans_AssessDifficulty p (question qr) topic = Inl e3 \<longrightarrow> e2 = e3)"
  then show "fst (InterviewPipeline_forward_swapped (stateless p) topic question_type difficulty
             num_followups w)
      = fst (InterviewPipeline_forward (stateless p) topic question_type difficulty
             num_followups w)"
    by (intro swapped_outcome) blast
next
  fix qr e2 e3
  assume "ans_GenerateQuestion p topic question_type difficulty = Inr qr"
    and "ans_GenerateFollowUp p (question qr) topic (case num_followups of None \<Rightarrow> 3 | Some k \<Rightarrow> k) = Inl e2"
    and "ans_AssessDifficulty p (question qr) topic = Inl e3"
  then show "fst (InterviewPipeline_forward (stateless p) topic question_type difficulty
             num_followups w) = Inl e2"
    and "fst (InterviewPipeline_forward_swapped (stateless p) topic question_type difficulty
             num_followups w) = Inl e3"
    by (rule swapped_both_fail)+
qed

theorem swapped_stages_same_result_witness:
  "fst (InterviewPipeline_forward_swapped (stateless pure_answers)
          ''heaps'' ''coding'' ''easy'' (Some 2) fresh)
     = Inr [''question'' \<mapsto> ''Explain heaps'',
             ''explanation'' \<mapsto> ''Tests coding'',
             ''requested_difficulty'' \<mapsto> ''easy'',
             ''assessed_difficulty'' \<mapsto> ''hard'',
             ''difficulty_reasoning'' \<mapsto> ''Needs heaps'',
             ''followup_questions'' \<mapsto> ''1. Why? (heaps)''] \<and>
   fst (InterviewPipeline_forward_swapped (stateless pure_unassessed)
          ''heaps'' ''coding'' ''easy'' (Some 2) fresh)
     = Inl (ExternalError ''no assessment'') \<and>
   fst (InterviewPipeline_forward (stateless pure_unassessed)
          ''heaps'' ''coding'' ''easy'' (Some 2) fresh)
     = Inl (ExternalError ''no assessment'') \<and>
   fst (InterviewPipeline_forward (stateless pure_failing)
          ''heaps'' ''coding'' ''easy'' (Some 2) fresh)
     = Inl (ExternalError ''no followups'')"
  using swapped_stages_same_result
      [of pure_answers "''heaps''" "''coding''" "''easy''" "Some 2" fresh]
    swapped_stages_same_result
      [of pure_unassessed "''heaps''" "''coding''" "''easy''" "Some 2" fresh]
    swapped_stages_same_result
      [of pure_failing "''heaps''" "''coding''" "''easy''" "Some 2" fresh]
  by (simp add: InterviewPipeline_forward_swapped_def InterviewPipeline_forward_def
      generator_defs request_def stateless_def pure_failing_def pure_unassessed_def
      pure_answers_def fresh_def)

end
